theory Spec2Isabelle
  imports Main "HOL-Library.Sublist"
begin

section \<open>JavaScript string primitives\<close>

text \<open>
  Strings are modelled as lists of 8-bit characters, read as the code units U+0000 to
  U+00FF. On these, \<open>trim\<close> removes leading and trailing white space (tab, line feed,
  vertical tab, form feed, carriage return, space and no-break space), \<open>toLowerCase\<close>
  maps the capital letters (\<open>A\<close>..\<open>Z\<close> and the accented capitals U+00C0 to U+00DE
  other than the multiplication sign) to their small letters and leaves every other
  character alone, and \<open>includesStr\<close> is the contiguous-substring test of
  \<open>String.prototype.includes\<close>.
\<close>

definition isWhiteSpace :: "char \<Rightarrow> bool" where
  "isWhiteSpace c = (of_char c \<in> set [9, 10, 11, 12, 13, 32, 160 :: nat])"

definition trim :: "string \<Rightarrow> string" where
  "trim s = rev (dropWhile isWhiteSpace (rev (dropWhile isWhiteSpace s)))"

definition lowerChar :: "char \<Rightarrow> char" where
  "lowerChar c =
     (let n = (of_char c :: nat)
      in if (65 \<le> n \<and> n \<le> 90) \<or> (192 \<le> n \<and> n \<le> 222 \<and> n \<noteq> 215)
         then char_of (n + 32)
         else c)"

definition toLowerCase :: "string \<Rightarrow> string" where
  "toLowerCase s = map lowerChar s"

definition includesStr :: "string \<Rightarrow> string \<Rightarrow> bool" where
  "includesStr hay needle = sublist needle hay"

text \<open>
  An object property that may be missing is an \<open>option\<close>; \<open>None\<close> stands for
  \<open>undefined\<close>. A string is truthy when it is present and not empty. Inside a template
  literal a missing value is rendered as the text \<open>undefined\<close>, and \<open>x || d\<close> yields
  \<open>d\<close> when \<open>x\<close> is falsy.
\<close>

definition truthy :: "string option \<Rightarrow> bool" where
  "truthy v = (case v of None \<Rightarrow> False | Some s \<Rightarrow> s \<noteq> [])"

definition templateText :: "string option \<Rightarrow> string" where
  "templateText v = (case v of None \<Rightarrow> ''undefined'' | Some s \<Rightarrow> s)"

definition orElse :: "string option \<Rightarrow> string \<Rightarrow> string" where
  "orElse v d = (case v of None \<Rightarrow> d | Some s \<Rightarrow> if s = [] then d else s)"

section \<open>Contacts store\<close>

text \<open>
  A contact as the mock API returns it. The identifier and the name are always present;
  phone, email and avatar may be missing from the object.
\<close>

record contact =
  c_id :: string
  c_name :: string
  c_phone :: "string option"
  c_email :: "string option"
  c_avatar :: "string option"

datatype status = Idle | Loading | Succeeded | Failed

record contacts_state =
  items :: "contact list"
  status :: status
  error :: "string option"

definition contactsInitialState :: contacts_state where
  "contactsInitialState = \<lparr>items = [], status = Idle, error = None\<rparr>"

text \<open>
  The actions of the four thunks. A fulfilled update carries \<open>action.meta.arg.id\<close>
  and the payload; a rejected action carries the value given to \<open>rejectWithValue\<close>.
\<close>

datatype contacts_action =
    FetchPending
  | FetchFulfilled "contact list"
  | FetchRejected string
  | AddPending
  | AddFulfilled contact
  | AddRejected string
  | UpdatePending
  | UpdateFulfilled string contact
  | UpdateRejected string
  | DeletePending
  | DeleteFulfilled string
  | DeleteRejected string

text \<open>\<open>Array.prototype.findIndex\<close>; \<open>None\<close> stands for the result \<open>-1\<close>.\<close>

fun findIndex :: "('a \<Rightarrow> bool) \<Rightarrow> 'a list \<Rightarrow> nat option" where
  "findIndex P [] = None"
| "findIndex P (x # xs) = (if P x then Some 0 else map_option Suc (findIndex P xs))"

text \<open>
  \<open>action.payload || action.error.message\<close>: for an action made by
  \<open>rejectWithValue\<close> the message of \<open>action.error\<close> is the text \<open>Rejected\<close>.
\<close>

definition rejectedMessage :: "string \<Rightarrow> string" where
  "rejectedMessage payload = orElse (Some payload) ''Rejected''"

fun contactsReducer :: "contacts_state \<Rightarrow> contacts_action \<Rightarrow> contacts_state" where
  "contactsReducer s FetchPending = s\<lparr>status := Loading, error := None\<rparr>"
| "contactsReducer s (FetchFulfilled payload) = s\<lparr>status := Succeeded, items := payload\<rparr>"
| "contactsReducer s (FetchRejected payload) =
     s\<lparr>status := Failed, error := Some (rejectedMessage payload)\<rparr>"
| "contactsReducer s AddPending = s\<lparr>status := Loading, error := None\<rparr>"
| "contactsReducer s (AddFulfilled payload) =
     s\<lparr>status := Succeeded, items := payload # items s\<rparr>"
| "contactsReducer s (AddRejected payload) =
     s\<lparr>status := Failed, error := Some (rejectedMessage payload)\<rparr>"
| "contactsReducer s UpdatePending = s\<lparr>status := Loading, error := None\<rparr>"
| "contactsReducer s (UpdateFulfilled argId payload) =
     (case findIndex (\<lambda>contact. c_id contact = argId) (items s) of
        None \<Rightarrow> s\<lparr>status := Succeeded\<rparr>
      | Some index \<Rightarrow> s\<lparr>status := Succeeded, items := (items s)[index := payload]\<rparr>)"
| "contactsReducer s (UpdateRejected payload) =
     s\<lparr>status := Failed, error := Some (rejectedMessage payload)\<rparr>"
| "contactsReducer s DeletePending = s\<lparr>status := Loading, error := None\<rparr>"
| "contactsReducer s (DeleteFulfilled payload) =
     s\<lparr>status := Succeeded, items := filter (\<lambda>contact. c_id contact \<noteq> payload) (items s)\<rparr>"
| "contactsReducer s (DeleteRejected payload) =
     s\<lparr>status := Failed, error := Some (rejectedMessage payload)\<rparr>"

section \<open>Derived filtering\<close>

text \<open>
  The result function of \<open>selectFilteredContacts\<close>, applied to the collection, the
  search text and the filter value of the store.
\<close>

definition matchesSearch :: "string \<Rightarrow> contact \<Rightarrow> bool" where
  "matchesSearch normalizedSearch contact =
     (if normalizedSearch \<noteq> []
      then includesStr
             (toLowerCase (c_name contact @ '' '' @ templateText (c_phone contact) @ '' '' @
                           orElse (c_email contact) ''''))
             normalizedSearch
      else True)"

definition matchesFilter :: "string \<Rightarrow> contact \<Rightarrow> bool" where
  "matchesFilter flt contact =
     (flt = ''all'' \<or>
      (flt = ''hasEmail'' \<and> truthy (c_email contact)) \<or>
      (flt = ''hasPhone'' \<and> truthy (c_phone contact)))"

definition selectFilteredContacts :: "contact list \<Rightarrow> string \<Rightarrow> string \<Rightarrow> contact list" where
  "selectFilteredContacts its search flt =
     (let normalizedSearch = toLowerCase (trim search)
      in filter (\<lambda>contact. matchesSearch normalizedSearch contact \<and> matchesFilter flt contact) its)"

section \<open>Session store\<close>

record user =
  u_name :: string
  u_email :: string

record auth_state =
  user :: "user option"
  token :: "string option"
  isLoggedIn :: bool
  isRefreshing :: bool
  authStatus :: status
  authError :: "string option"

definition authInitialState :: auth_state where
  "authInitialState =
     \<lparr>user = None, token = None, isLoggedIn = False, isRefreshing = False,
      authStatus = Idle, authError = None\<rparr>"

text \<open>
  The two plain actions of the slice and the actions of the four thunks. A rejected
  action carries the value given to \<open>rejectWithValue\<close>; the cases for logout and for a
  rejected refresh do not read their action.
\<close>

datatype auth_action =
    SetCredentials "user option" "string option"
  | ClearCredentials
  | RegisterPending
  | RegisterFulfilled user string
  | RegisterRejected string
  | LoginPending
  | LoginFulfilled user string
  | LoginRejected string
  | LogoutPending
  | LogoutFulfilled
  | LogoutRejected
  | RefreshPending
  | RefreshFulfilled user
  | RefreshRejected string

fun authReducer :: "auth_state \<Rightarrow> auth_action \<Rightarrow> auth_state" where
  "authReducer s (SetCredentials usr tok) =
     (let s1 = (case usr of None \<Rightarrow> s | Some u \<Rightarrow> s\<lparr>user := Some u\<rparr>)
      in if truthy tok then s1\<lparr>token := tok, isLoggedIn := True\<rparr> else s1)"
| "authReducer s ClearCredentials =
     s\<lparr>user := None, token := None, isLoggedIn := False, authError := None\<rparr>"
| "authReducer s RegisterPending = s\<lparr>authStatus := Loading, authError := None\<rparr>"
| "authReducer s (RegisterFulfilled usr tok) =
     s\<lparr>authStatus := Succeeded, user := Some usr, token := Some tok, isLoggedIn := True,
       authError := None\<rparr>"
| "authReducer s (RegisterRejected payload) =
     s\<lparr>authStatus := Failed, authError := Some (orElse (Some payload) ''Registration failed''),
       user := None, token := None, isLoggedIn := False\<rparr>"
| "authReducer s LoginPending = s\<lparr>authStatus := Loading, authError := None\<rparr>"
| "authReducer s (LoginFulfilled usr tok) =
     s\<lparr>authStatus := Succeeded, user := Some usr, token := Some tok, isLoggedIn := True,
       authError := None\<rparr>"
| "authReducer s (LoginRejected payload) =
     s\<lparr>authStatus := Failed, authError := Some (orElse (Some payload) ''Login failed''),
       user := None, token := None, isLoggedIn := False\<rparr>"
| "authReducer s LogoutPending = s\<lparr>authStatus := Loading\<rparr>"
| "authReducer s LogoutFulfilled =
     s\<lparr>authStatus := Idle, user := None, token := None, isLoggedIn := False,
       authError := None\<rparr>"
| "authReducer s LogoutRejected =
     s\<lparr>authStatus := Idle, user := None, token := None, isLoggedIn := False,
       authError := None\<rparr>"
| "authReducer s RefreshPending = s\<lparr>isRefreshing := True, authError := None\<rparr>"
| "authReducer s (RefreshFulfilled usr) =
     s\<lparr>isRefreshing := False, user := Some usr, isLoggedIn := True, authStatus := Succeeded\<rparr>"
| "authReducer s (RefreshRejected payload) =
     s\<lparr>isRefreshing := False, user := None, token := None, isLoggedIn := False,
       authError := Some ''Session expired''\<rparr>"

section \<open>The application state and the network\<close>

text \<open>
  A request as it leaves the client: method, path, the \<open>Authorization\<close> header when one
  was attached, and the fields of the JSON body. The remote service is a parameter of
  every operation: a function from the request to what axios reports for it, either the
  data of a 2xx response or an error object. An error object has a message and, when the
  server answered at all, the response with its status code and the \<open>message\<close> field of
  its data.
\<close>

datatype http_method = GET | POST | PUT | PATCH | DELETE

record request =
  req_method :: http_method
  req_url :: string
  req_authorization :: "string option"
  req_body :: "(string \<times> string) list"

record response =
  resp_status :: nat
  resp_message :: "string option"

record axios_error =
  err_message :: string
  err_response :: "response option"

datatype 'a outcome = Resolve 'a | Reject axios_error

text \<open>
  The state the operations work on: the two slices of the store, the browser's
  \<open>localStorage\<close>, and the log of the requests issued so far.
\<close>

record world =
  auth :: auth_state
  contacts :: contacts_state
  localStorage :: "string \<Rightarrow> string option"
  network :: "request list"

text \<open>How a thunk settles: fulfilled with a payload, or rejected with a value.\<close>

datatype 'p settled = Fulfilled 'p | Rejected string

section \<open>HTTP client adapter\<close>

definition requestInterceptor :: "world \<Rightarrow> request \<Rightarrow> request" where
  "requestInterceptor w config =
     (case localStorage w ''token'' of
        None \<Rightarrow> config
      | Some tok \<Rightarrow>
          if tok \<noteq> [] then config\<lparr>req_authorization := Some (''Bearer '' @ tok)\<rparr> else config)"

definition responseErrorInterceptor :: "axios_error \<Rightarrow> world \<Rightarrow> 'a outcome \<times> world" where
  "responseErrorInterceptor err w =
     (if map_option resp_status (err_response err) = Some 401
      then (Reject err, w\<lparr>localStorage := (localStorage w)(''token'' := None)\<rparr>)
      else (Reject err, w))"

definition api_send ::
  "(request \<Rightarrow> 'a outcome) \<Rightarrow> http_method \<Rightarrow> string \<Rightarrow> (string \<times> string) list \<Rightarrow> world
     \<Rightarrow> 'a outcome \<times> world" where
  "api_send remote m path body w =
     (let config = requestInterceptor w
            \<lparr>req_method = m, req_url = path, req_authorization = None, req_body = body\<rparr>;
          w1 = w\<lparr>network := network w @ [config]\<rparr>
      in case remote config of
           Resolve data \<Rightarrow> (Resolve data, w1)
         | Reject err \<Rightarrow> responseErrorInterceptor err w1)"

section \<open>Authentication operations\<close>

text \<open>The decimal text of a number, as a template literal renders a status code.\<close>

definition digitChar :: "nat \<Rightarrow> char" where
  "digitChar d = char_of (48 + d)"

function numberToString :: "nat \<Rightarrow> string" where
  "numberToString n =
     (if n < 10 then [digitChar n] else numberToString (n div 10) @ [digitChar (n mod 10)])"
  by pat_completeness auto
termination
  by (relation "measure id") auto

declare numberToString.simps [simp del]

text \<open>\<open>error.response?.data?.message || error.message || fallback\<close>\<close>

definition errorText :: "axios_error \<Rightarrow> string \<Rightarrow> string" where
  "errorText err fallback =
     orElse (case err_response err of None \<Rightarrow> None | Some r \<Rightarrow> resp_message r)
            (orElse (Some (err_message err)) fallback)"

definition register ::
  "(request \<Rightarrow> (user \<times> string) outcome) \<Rightarrow> (string \<times> string) list \<Rightarrow> world
     \<Rightarrow> (user \<times> string) settled \<times> world" where
  "register remote credentials w =
     (let w1 = w\<lparr>auth := authReducer (auth w) RegisterPending\<rparr>
      in case api_send remote POST ''/users/signup'' credentials w1 of
           (Resolve (usr, tok), w2) \<Rightarrow>
             (let w3 = w2\<lparr>localStorage := (localStorage w2)(''token'' \<mapsto> tok)\<rparr>
              in (Fulfilled (usr, tok),
                  w3\<lparr>auth := authReducer (auth w3) (RegisterFulfilled usr tok)\<rparr>))
         | (Reject err, w2) \<Rightarrow>
             (let statusCode = map_option resp_status (err_response err);
                  message = errorText err ''Registration failed'';
                  errorMessage =
                    (case statusCode of
                       None \<Rightarrow> message
                     | Some code \<Rightarrow>
                         if code = 400 \<or> code = 409
                         then numberToString code @ '':'' @ message
                         else message)
              in (Rejected errorMessage,
                  w2\<lparr>auth := authReducer (auth w2) (RegisterRejected errorMessage)\<rparr>)))"

text \<open>
  The logout request is attempted and its outcome is dropped (a failure is only logged
  to the console); the \<open>finally\<close> block removes the token, and the thunk returns.
\<close>

definition logout :: "(request \<Rightarrow> unit outcome) \<Rightarrow> world \<Rightarrow> unit settled \<times> world" where
  "logout remote w =
     (let w1 = w\<lparr>auth := authReducer (auth w) LogoutPending\<rparr>;
          w2 = snd (api_send remote POST ''/users/logout'' [] w1);
          w3 = w2\<lparr>localStorage := (localStorage w2)(''token'' := None)\<rparr>
      in (Fulfilled (), w3\<lparr>auth := authReducer (auth w3) LogoutFulfilled\<rparr>))"

definition refreshUser :: "(request \<Rightarrow> user outcome) \<Rightarrow> world \<Rightarrow> user settled \<times> world" where
  "refreshUser remote w =
     (let w1 = w\<lparr>auth := authReducer (auth w) RefreshPending\<rparr>
      in if \<not> truthy (localStorage w1 ''token'')
         then (Rejected ''Token not found'',
               w1\<lparr>auth := authReducer (auth w1) (RefreshRejected ''Token not found'')\<rparr>)
         else case api_send remote GET ''/users/current'' [] w1 of
                (Resolve usr, w2) \<Rightarrow>
                  (Fulfilled usr, w2\<lparr>auth := authReducer (auth w2) (RefreshFulfilled usr)\<rparr>)
              | (Reject err, w2) \<Rightarrow>
                  (let w3 = w2\<lparr>localStorage := (localStorage w2)(''token'' := None)\<rparr>;
                       message = errorText err ''Session expired''
                   in (Rejected message,
                       w3\<lparr>auth := authReducer (auth w3) (RefreshRejected message)\<rparr>)))"

section \<open>Adding a contact\<close>

text \<open>
  \<open>addContact\<close> of the mock-API operations: its axios instance has no interceptors, so
  the request goes out as it is and the outcome comes back as it is.
\<close>

record form_data =
  f_name :: string
  f_phone :: string
  f_email :: string
  f_avatar :: string

definition emptyContact :: form_data where
  "emptyContact = \<lparr>f_name = [], f_phone = [], f_email = [], f_avatar = []\<rparr>"

definition contactBody :: "form_data \<Rightarrow> (string \<times> string) list" where
  "contactBody c =
     [(''name'', f_name c), (''phone'', f_phone c), (''email'', f_email c),
      (''avatar'', f_avatar c)]"

definition addContact ::
  "(request \<Rightarrow> contact outcome) \<Rightarrow> form_data \<Rightarrow> world \<Rightarrow> contact settled \<times> world" where
  "addContact remote c w =
     (let w1 = w\<lparr>contacts := contactsReducer (contacts w) AddPending\<rparr>;
          config = \<lparr>req_method = POST, req_url = ''/'', req_authorization = None,
                    req_body = contactBody c\<rparr>;
          w2 = w1\<lparr>network := network w1 @ [config]\<rparr>
      in case remote config of
           Resolve data \<Rightarrow>
             (Fulfilled data, w2\<lparr>contacts := contactsReducer (contacts w2) (AddFulfilled data)\<rparr>)
         | Reject err \<Rightarrow>
             (let message = orElse (Some (err_message err)) ''Failed to add contact''
              in (Rejected message,
                  w2\<lparr>contacts := contactsReducer (contacts w2) (AddRejected message)\<rparr>)))"

text \<open>
  \<open>handleSubmit\<close> of the application passes the payload to the store;
  \<open>handleSubmit\<close> of the contact form trims the fields, returns at once when the name or
  the phone is empty, and otherwise calls \<open>onSubmit\<close> and empties the form. The result
  is the form's state together with the state of the application.
\<close>

definition App_handleSubmit :: "(request \<Rightarrow> contact outcome) \<Rightarrow> form_data \<Rightarrow> world \<Rightarrow> world" where
  "App_handleSubmit remote payload w = snd (addContact remote payload w)"

definition ContactForm_handleSubmit ::
  "(form_data \<Rightarrow> world \<Rightarrow> world) \<Rightarrow> form_data \<Rightarrow> world \<Rightarrow> form_data \<times> world" where
  "ContactForm_handleSubmit onSubmit formData w =
     (let payload = \<lparr>f_name = trim (f_name formData), f_phone = trim (f_phone formData),
                      f_email = trim (f_email formData), f_avatar = trim (f_avatar formData)\<rparr>
      in if f_name payload = [] \<or> f_phone payload = []
         then (formData, w)
         else (emptyContact, onSubmit payload w))"

section \<open>The specification's wording of the filtered view\<close>

text \<open>
  The filtered view as the specification words it, for comparison with the selector: the
  search text, trimmed and lowercased, is looked for case-insensitively in the name, the
  phone and the email written one after the other (nothing for a missing field), and the
  category filter is applied as well.
\<close>

definition spec_filteredView :: "contact list \<Rightarrow> string \<Rightarrow> string \<Rightarrow> contact list" where
  "spec_filteredView its search flt =
     filter (\<lambda>c.
        (toLowerCase (trim search) = [] \<or>
         sublist (toLowerCase (trim search))
                 (toLowerCase (c_name c @ orElse (c_phone c) [] @ orElse (c_email c) []))) \<and>
        (flt = ''all'' \<or>
         (flt = ''hasEmail'' \<and> truthy (c_email c)) \<or>
         (flt = ''hasPhone'' \<and> truthy (c_phone c)))) its"

section \<open>Example data\<close>

text \<open>
  The store as it is created, with nothing in \<open>localStorage\<close> and no request sent, the
  two contacts of the specification's scenarios, and three error objects: no response at
  all, a 409 response and a 401 response.
\<close>

definition initialWorld :: world where
  "initialWorld =
     \<lparr>auth = authInitialState, contacts = contactsInitialState,
      localStorage = (\<lambda>key. None), network = []\<rparr>"

definition ann :: contact where
  "ann = \<lparr>c_id = ''1'', c_name = ''Ann'', c_phone = Some ''555'', c_email = None,
          c_avatar = None\<rparr>"

definition bo :: contact where
  "bo = \<lparr>c_id = ''2'', c_name = ''Bo'', c_phone = Some ''222'', c_email = None,
         c_avatar = None\<rparr>"

definition twoContacts :: contacts_state where
  "twoContacts = \<lparr>items = [bo, ann], status = Succeeded, error = None\<rparr>"

definition offline :: axios_error where
  "offline = \<lparr>err_message = ''Network Error'', err_response = None\<rparr>"

definition conflict :: axios_error where
  "conflict =
     \<lparr>err_message = ''Request failed with status code 409'',
      err_response = Some \<lparr>resp_status = 409, resp_message = Some ''User already exists''\<rparr>\<rparr>"

definition unauthorized :: axios_error where
  "unauthorized =
     \<lparr>err_message = ''Request failed with status code 401'',
      err_response = Some \<lparr>resp_status = 401, resp_message = Some ''Please authenticate''\<rparr>\<rparr>"

section \<open>Auxiliary facts\<close>

lemma trim_Nil: "trim [] = []"
  by (simp add: trim_def)

lemma truthy_iff: "truthy v \<longleftrightarrow> (\<exists>s. v = Some s \<and> s \<noteq> [])"
  by (cases v) (simp_all add: truthy_def)

lemma orElse_empty: "orElse v [] = (case v of None \<Rightarrow> [] | Some s \<Rightarrow> s)"
  by (cases v) (simp_all add: orElse_def)

lemma findIndex_None_iff: "findIndex P xs = None \<longleftrightarrow> (\<forall>x\<in>set xs. \<not> P x)"
  by (induction xs) auto

lemma findIndex_Some_first:
  "findIndex P xs = Some i \<Longrightarrow> i < length xs \<and> P (xs ! i) \<and> (\<forall>j<i. \<not> P (xs ! j))"
proof (induction xs arbitrary: i)
  case Nil
  then show ?case by simp
next
  case (Cons x xs)
  show ?case
  proof (cases "P x")
    case True
    with Cons.prems show ?thesis by simp
  next
    case False
    with Cons.prems obtain k where k: "findIndex P xs = Some k" "i = Suc k"
      by auto
    from Cons.IH [OF k(1)] have ih: "k < length xs" "P (xs ! k)" "\<forall>j<k. \<not> P (xs ! j)"
      by simp_all
    have "\<forall>j<Suc k. \<not> P ((x # xs) ! j)"
    proof (intro allI impI)
      fix j assume "j < Suc k"
      then show "\<not> P ((x # xs) ! j)"
        using False ih(3) by (cases j) simp_all
    qed
    with ih k show ?thesis by simp
  qed
qed

lemma count_list_filter_other:
  "c_id c \<noteq> removedId \<Longrightarrow>
   count_list (filter (\<lambda>contact. c_id contact \<noteq> removedId) xs) c = count_list xs c"
  by (induction xs) auto

lemma api_send_network:
  "network (snd (api_send remote m path body w)) =
   network w @ [requestInterceptor w
                  \<lparr>req_method = m, req_url = path, req_authorization = None, req_body = body\<rparr>]"
  by (simp add: api_send_def Let_def responseErrorInterceptor_def split: outcome.splits)

lemma add_accepted_sends_one_request:
  assumes "trim (f_name formData) \<noteq> []" and "trim (f_phone formData) \<noteq> []"
  shows "length (network (snd (ContactForm_handleSubmit (App_handleSubmit remote) formData w))) =
         Suc (length (network w))"
  using assms
  by (simp add: ContactForm_handleSubmit_def App_handleSubmit_def addContact_def Let_def
      split: outcome.splits)

section \<open>Adding a contact with a missing name or phone\<close>

text \<open>
  C1. When the name typed into the contact form is empty, or the phone is empty once
  trimmed, submitting the form returns before \<open>onSubmit\<close> is called: the form and the
  whole application state come back as they were, so no request is added to the network
  log and the contact collection is the same. (For a form that passes the check exactly
  one request goes out, see \<open>add_accepted_sends_one_request\<close>.)
\<close>

theorem add_rejected_locally:
  assumes "f_name formData = [] \<or> trim (f_phone formData) = []"
  shows "ContactForm_handleSubmit (App_handleSubmit remote) formData w = (formData, w) \<and>
         network (snd (ContactForm_handleSubmit (App_handleSubmit remote) formData w)) = network w \<and>
         items (contacts (snd (ContactForm_handleSubmit (App_handleSubmit remote) formData w))) =
           items (contacts w)"
proof -
  from assms have "trim (f_name formData) = [] \<or> trim (f_phone formData) = []"
    by (auto simp add: trim_Nil)
  then have "ContactForm_handleSubmit (App_handleSubmit remote) formData w = (formData, w)"
    by (simp add: ContactForm_handleSubmit_def Let_def)
  then show ?thesis by simp
qed

theorem add_rejected_locally_witness:
  "(f_name \<lparr>f_name = ''Bo'', f_phone = ''   '', f_email = [], f_avatar = []\<rparr> = [] \<or>
    trim (f_phone \<lparr>f_name = ''Bo'', f_phone = ''   '', f_email = [], f_avatar = []\<rparr>) = []) \<and>
   ContactForm_handleSubmit (App_handleSubmit (\<lambda>request. Resolve bo))
     \<lparr>f_name = ''Bo'', f_phone = ''   '', f_email = [], f_avatar = []\<rparr> initialWorld =
     (\<lparr>f_name = ''Bo'', f_phone = ''   '', f_email = [], f_avatar = []\<rparr>, initialWorld)"
proof -
  have blank: "trim ''   '' = []"
    by code_simp
  then have h: "f_name \<lparr>f_name = ''Bo'', f_phone = ''   '', f_email = [], f_avatar = []\<rparr> = [] \<or>
    trim (f_phone \<lparr>f_name = ''Bo'', f_phone = ''   '', f_email = [], f_avatar = []\<rparr>) = []"
    by simp
  from add_rejected_locally [OF h, of "\<lambda>request. Resolve bo" initialWorld] h
  show ?thesis by simp
qed

section \<open>The filtered view\<close>

text \<open>
  C2, as the specification words it, does not hold: the selector looks for the search
  text in the name, the phone and the email joined by single spaces, not written one
  directly after the other. For the contact Ann with phone 555 the search text \<open>n5\<close>
  occurs in \<open>ann555\<close> but not in \<open>ann 555 \<close>, so the selector drops a contact that the
  specification's wording keeps.
\<close>

theorem filteredView_concatenation_counterexample:
  "selectFilteredContacts
     [\<lparr>c_id = ''1'', c_name = ''Ann'', c_phone = Some ''555'', c_email = None, c_avatar = None\<rparr>]
     ''n5'' ''all''
   \<noteq> spec_filteredView
     [\<lparr>c_id = ''1'', c_name = ''Ann'', c_phone = Some ''555'', c_email = None, c_avatar = None\<rparr>]
     ''n5'' ''all''"
  by code_simp

text \<open>
  C2, amended. A contact is in the filtered view exactly when it is in the collection and
  satisfies both predicates: the trimmed, lowercased search text is empty or occurs in the
  lowercased text made of the name, a space, the phone, a space and the email (nothing for
  a missing or empty email; a missing phone is rendered as the template literal renders
  it); and the filter is \<open>all\<close>, or \<open>hasEmail\<close> with a non-empty email, or
  \<open>hasPhone\<close> with a non-empty phone. The view is the collection restricted to those
  contacts, in the collection's order. Searching \<open>ann\<close> with filter \<open>hasEmail\<close> over
  Ann (empty email) and Anna (email \<open>a@x.com\<close>) yields Anna only.
\<close>

theorem filteredView_keeps_exactly:
  "(c \<in> set (selectFilteredContacts its search flt) \<longleftrightarrow>
      c \<in> set its \<and>
      (toLowerCase (trim search) = [] \<or>
       sublist (toLowerCase (trim search))
         (toLowerCase (c_name c @ '' '' @ templateText (c_phone c) @ '' '' @
                       (case c_email c of None \<Rightarrow> [] | Some e \<Rightarrow> e)))) \<and>
      (flt = ''all'' \<or>
       (flt = ''hasEmail'' \<and> (\<exists>e. c_email c = Some e \<and> e \<noteq> [])) \<or>
       (flt = ''hasPhone'' \<and> (\<exists>p. c_phone c = Some p \<and> p \<noteq> [])))) \<and>
   selectFilteredContacts its search flt =
     filter (\<lambda>k. k \<in> set (selectFilteredContacts its search flt)) its \<and>
   selectFilteredContacts
     [\<lparr>c_id = ''1'', c_name = ''Ann'', c_phone = None, c_email = Some [], c_avatar = None\<rparr>,
      \<lparr>c_id = ''2'', c_name = ''Anna'', c_phone = None, c_email = Some ''a@x.com'',
        c_avatar = None\<rparr>]
     ''ann'' ''hasEmail'' =
     [\<lparr>c_id = ''2'', c_name = ''Anna'', c_phone = None, c_email = Some ''a@x.com'',
        c_avatar = None\<rparr>]"
proof (intro conjI)
  show "c \<in> set (selectFilteredContacts its search flt) \<longleftrightarrow>
      c \<in> set its \<and>
      (toLowerCase (trim search) = [] \<or>
       sublist (toLowerCase (trim search))
         (toLowerCase (c_name c @ '' '' @ templateText (c_phone c) @ '' '' @
                       (case c_email c of None \<Rightarrow> [] | Some e \<Rightarrow> e)))) \<and>
      (flt = ''all'' \<or>
       (flt = ''hasEmail'' \<and> (\<exists>e. c_email c = Some e \<and> e \<noteq> [])) \<or>
       (flt = ''hasPhone'' \<and> (\<exists>p. c_phone c = Some p \<and> p \<noteq> [])))"
    unfolding selectFilteredContacts_def Let_def matchesSearch_def matchesFilter_def
      includesStr_def truthy_iff orElse_empty
    by auto
  show "selectFilteredContacts its search flt =
     filter (\<lambda>k. k \<in> set (selectFilteredContacts its search flt)) its"
    unfolding selectFilteredContacts_def Let_def
    by (auto intro!: filter_cong)
  show "selectFilteredContacts
     [\<lparr>c_id = ''1'', c_name = ''Ann'', c_phone = None, c_email = Some [], c_avatar = None\<rparr>,
      \<lparr>c_id = ''2'', c_name = ''Anna'', c_phone = None, c_email = Some ''a@x.com'',
        c_avatar = None\<rparr>]
     ''ann'' ''hasEmail'' =
     [\<lparr>c_id = ''2'', c_name = ''Anna'', c_phone = None, c_email = Some ''a@x.com'',
        c_avatar = None\<rparr>]"
    by code_simp
qed

theorem filteredView_keeps_exactly_witness:
  "ann \<in> set (selectFilteredContacts [bo, ann] '' N 5 '' ''hasPhone'') \<and>
   bo \<notin> set (selectFilteredContacts [bo, ann] '' N 5 '' ''hasPhone'')"
proof -
  have q: "toLowerCase (trim '' N 5 '') = ''n 5''"
    by code_simp
  have hayAnn: "sublist ''n 5''
      (toLowerCase (c_name ann @ '' '' @ templateText (c_phone ann) @ '' '' @
                    (case c_email ann of None \<Rightarrow> [] | Some e \<Rightarrow> e)))"
    by code_simp
  have hayBo: "\<not> sublist ''n 5''
      (toLowerCase (c_name bo @ '' '' @ templateText (c_phone bo) @ '' '' @
                    (case c_email bo of None \<Rightarrow> [] | Some e \<Rightarrow> e)))"
    by code_simp
  have phone: "c_phone ann = Some ''555''"
    by (simp add: ann_def)
  from filteredView_keeps_exactly [of ann "[bo, ann]" "'' N 5 ''" "''hasPhone''"]
       filteredView_keeps_exactly [of bo "[bo, ann]" "'' N 5 ''" "''hasPhone''"]
       q hayAnn hayBo phone
  show ?thesis by simp
qed

section \<open>Logging out\<close>

text \<open>
  C3. Whatever the remote service does with the logout request (a 2xx response, an error
  response or no response at all), the logout thunk settles as fulfilled, the token is
  gone from \<open>localStorage\<close>, and the session has no user, no token, is not logged in
  and has no error. The request itself was attempted: the network log has grown by one.
  The reducer's case for a rejected logout resets the session in the same way as its
  case for a fulfilled one.
\<close>

theorem logout_always_settles:
  "fst (logout remote w) = Fulfilled () \<and>
   localStorage (snd (logout remote w)) ''token'' = None \<and>
   user (auth (snd (logout remote w))) = None \<and>
   token (auth (snd (logout remote w))) = None \<and>
   isLoggedIn (auth (snd (logout remote w))) = False \<and>
   authError (auth (snd (logout remote w))) = None \<and>
   length (network (snd (logout remote w))) = Suc (length (network w)) \<and>
   authReducer s LogoutRejected = authReducer s LogoutFulfilled"
  by (simp add: logout_def Let_def api_send_network)

theorem logout_always_settles_witness:
  "fst (logout (\<lambda>request. Reject offline)
          (initialWorld\<lparr>localStorage := (\<lambda>key. None)(''token'' \<mapsto> ''abc'')\<rparr>)) = Fulfilled () \<and>
   localStorage (snd (logout (\<lambda>request. Reject offline)
          (initialWorld\<lparr>localStorage := (\<lambda>key. None)(''token'' \<mapsto> ''abc'')\<rparr>))) ''token'' = None"
  using logout_always_settles
    [of "\<lambda>request. Reject offline"
        "initialWorld\<lparr>localStorage := (\<lambda>key. None)(''token'' \<mapsto> ''abc'')\<rparr>"]
  by simp

section \<open>Updating a contact\<close>

text \<open>
  C4. After a fulfilled update for an identifier: if some contact of the collection has
  that identifier, there is an index holding such a contact (the first one) at which the
  new collection holds the server's object, the collection keeps its length, and every
  other index holds what it held before; if no contact has that identifier, the
  collection is unchanged.
\<close>

theorem update_fulfilled_replaces_in_place:
  "((\<exists>c\<in>set (items s). c_id c = argId) \<longrightarrow>
      (\<exists>i<length (items s).
          c_id (items s ! i) = argId \<and>
          (\<forall>j<i. c_id (items s ! j) \<noteq> argId) \<and>
          length (items (contactsReducer s (UpdateFulfilled argId payload))) = length (items s) \<and>
          items (contactsReducer s (UpdateFulfilled argId payload)) ! i = payload \<and>
          (\<forall>j<length (items s). j \<noteq> i \<longrightarrow>
              items (contactsReducer s (UpdateFulfilled argId payload)) ! j = items s ! j))) \<and>
   ((\<forall>c\<in>set (items s). c_id c \<noteq> argId) \<longrightarrow>
      items (contactsReducer s (UpdateFulfilled argId payload)) = items s)"
proof (intro conjI impI)
  assume "\<exists>c\<in>set (items s). c_id c = argId"
  then have "findIndex (\<lambda>contact. c_id contact = argId) (items s) \<noteq> None"
    by (simp add: findIndex_None_iff)
  then obtain i where i: "findIndex (\<lambda>contact. c_id contact = argId) (items s) = Some i"
    by blast
  from findIndex_Some_first [OF i]
  have fi: "i < length (items s)" "c_id (items s ! i) = argId"
    "\<forall>j<i. c_id (items s ! j) \<noteq> argId"
    by simp_all
  have upd: "items (contactsReducer s (UpdateFulfilled argId payload)) = (items s)[i := payload]"
    using i by simp
  show "\<exists>i<length (items s).
          c_id (items s ! i) = argId \<and>
          (\<forall>j<i. c_id (items s ! j) \<noteq> argId) \<and>
          length (items (contactsReducer s (UpdateFulfilled argId payload))) = length (items s) \<and>
          items (contactsReducer s (UpdateFulfilled argId payload)) ! i = payload \<and>
          (\<forall>j<length (items s). j \<noteq> i \<longrightarrow>
              items (contactsReducer s (UpdateFulfilled argId payload)) ! j = items s ! j)"
    using fi unfolding upd by (intro exI [of _ i]) simp
next
  assume "\<forall>c\<in>set (items s). c_id c \<noteq> argId"
  then have "findIndex (\<lambda>contact. c_id contact = argId) (items s) = None"
    by (simp add: findIndex_None_iff)
  then show "items (contactsReducer s (UpdateFulfilled argId payload)) = items s"
    by simp
qed

theorem update_fulfilled_replaces_in_place_witness:
  "(\<exists>c\<in>set (items twoContacts). c_id c = ''1'') \<and>
   (\<exists>i<length (items twoContacts).
       c_id (items twoContacts ! i) = ''1'' \<and>
       items (contactsReducer twoContacts (UpdateFulfilled ''1'' (ann\<lparr>c_name := ''Anne''\<rparr>))) ! i =
         ann\<lparr>c_name := ''Anne''\<rparr>) \<and>
   ''7'' \<notin> set (map c_id (items twoContacts)) \<and>
   items (contactsReducer twoContacts (UpdateFulfilled ''7'' (ann\<lparr>c_name := ''Anne''\<rparr>))) =
     items twoContacts"
proof -
  have h1: "\<exists>c\<in>set (items twoContacts). c_id c = ''1''"
    by (simp add: twoContacts_def ann_def bo_def)
  have h2: "\<forall>c\<in>set (items twoContacts). c_id c \<noteq> ''7''"
    by (simp add: twoContacts_def ann_def bo_def)
  from update_fulfilled_replaces_in_place [of twoContacts "''1''" "ann\<lparr>c_name := ''Anne''\<rparr>"] h1
  have "\<exists>i<length (items twoContacts).
       c_id (items twoContacts ! i) = ''1'' \<and>
       items (contactsReducer twoContacts (UpdateFulfilled ''1'' (ann\<lparr>c_name := ''Anne''\<rparr>))) ! i =
         ann\<lparr>c_name := ''Anne''\<rparr>"
    by blast
  moreover
  from update_fulfilled_replaces_in_place [of twoContacts "''7''" "ann\<lparr>c_name := ''Anne''\<rparr>"] h2
  have "items (contactsReducer twoContacts (UpdateFulfilled ''7'' (ann\<lparr>c_name := ''Anne''\<rparr>))) =
     items twoContacts"
    by blast
  moreover
  from h2 have "''7'' \<notin> set (map c_id (items twoContacts))"
    by auto
  ultimately show ?thesis
    using h1 by blast
qed

section \<open>Fetching, then adding\<close>

text \<open>
  C5. A fulfilled fetch makes the collection the server's response, whatever it held
  before; a fulfilled add after it puts the server's contact first, followed by the
  fetched contacts. The same holds for the add operation run against a remote service
  that accepts it. Fetching Ann (identifier 1) and then adding Bo (identifier 2) gives
  Bo, Ann.
\<close>

theorem fetch_replaces_add_prepends:
  "items (contactsReducer s (FetchFulfilled fetched)) = fetched \<and>
   items (contactsReducer (contactsReducer s (FetchFulfilled fetched)) (AddFulfilled created)) =
     created # fetched \<and>
   items (contacts (snd (addContact (\<lambda>request. Resolve created) payload w))) =
     created # items (contacts w) \<and>
   items (contactsReducer (contactsReducer s (FetchFulfilled [ann])) (AddFulfilled bo)) = [bo, ann]"
  by (simp add: addContact_def Let_def)

theorem fetch_replaces_add_prepends_witness:
  "items (contactsReducer (contactsReducer twoContacts (FetchFulfilled [ann])) (AddFulfilled bo)) =
     [bo, ann] \<and>
   items (contacts (snd (addContact (\<lambda>request. Resolve bo)
       \<lparr>f_name = ''Bo'', f_phone = ''222'', f_email = [], f_avatar = []\<rparr> initialWorld))) = [bo]"
  using fetch_replaces_add_prepends
    [of twoContacts "[ann]" bo
        "\<lparr>f_name = ''Bo'', f_phone = ''222'', f_email = [], f_avatar = []\<rparr>" initialWorld]
  by (simp add: initialWorld_def contactsInitialState_def)

section \<open>Removing a contact\<close>

text \<open>
  C6. After a fulfilled removal of an identifier, no contact of the collection has that
  identifier; the new collection is a subsequence of the old one, so the contacts that
  stay keep their relative order; and every contact with another identifier occurs as
  often as it did before.
\<close>

theorem delete_fulfilled_removes:
  "(\<forall>c\<in>set (items (contactsReducer s (DeleteFulfilled removedId))). c_id c \<noteq> removedId) \<and>
   subseq (items (contactsReducer s (DeleteFulfilled removedId))) (items s) \<and>
   (\<forall>c. c_id c \<noteq> removedId \<longrightarrow>
        count_list (items (contactsReducer s (DeleteFulfilled removedId))) c =
        count_list (items s) c)"
  by (simp add: count_list_filter_other)

theorem delete_fulfilled_removes_witness:
  "bo \<in> set (items (contactsReducer twoContacts (DeleteFulfilled ''1''))) \<and>
   c_id bo \<noteq> ''1'' \<and>
   count_list (items (contactsReducer twoContacts (DeleteFulfilled ''1''))) bo =
     count_list (items twoContacts) bo \<and>
   ann \<notin> set (items (contactsReducer twoContacts (DeleteFulfilled ''1'')))"
proof -
  have h1: "c_id bo \<noteq> ''1''"
    by (simp add: bo_def)
  have h2: "c_id ann = ''1''"
    by (simp add: ann_def)
  have h3: "bo \<in> set (items (contactsReducer twoContacts (DeleteFulfilled ''1'')))"
    by (simp add: twoContacts_def bo_def)
  from delete_fulfilled_removes [of twoContacts "''1''"] h1 h2 h3
  show ?thesis by blast
qed

section \<open>The response interceptor\<close>

text \<open>
  C7. For every error that reaches the response interceptor, the caller gets that same
  error object back as a rejection, with its status code and messages as they were, and
  the session and contacts slices of the store are untouched. When the status is 401 the
  token is removed from \<open>localStorage\<close> and nothing else there changes; for any other
  error \<open>localStorage\<close> is unchanged. All of this holds in the same way for a request
  sent through the adapter to a remote service that answers with the error: the caller
  gets the error back, the store is untouched, and the token is removed from
  \<open>localStorage\<close> exactly when the status is 401.
\<close>

theorem interceptor_clears_credential_on_401:
  "fst (responseErrorInterceptor err w :: 'a outcome \<times> world) = Reject err \<and>
   auth (snd (responseErrorInterceptor err w :: 'a outcome \<times> world)) = auth w \<and>
   contacts (snd (responseErrorInterceptor err w :: 'a outcome \<times> world)) = contacts w \<and>
   (map_option resp_status (err_response err) = Some 401 \<longrightarrow>
      localStorage (snd (responseErrorInterceptor err w :: 'a outcome \<times> world)) =
        (localStorage w)(''token'' := None)) \<and>
   (map_option resp_status (err_response err) \<noteq> Some 401 \<longrightarrow>
      localStorage (snd (responseErrorInterceptor err w :: 'a outcome \<times> world)) = localStorage w) \<and>
   fst (api_send (\<lambda>request. Reject err) m path body w :: 'a outcome \<times> world) = Reject err \<and>
   auth (snd (api_send (\<lambda>request. Reject err) m path body w :: 'a outcome \<times> world)) = auth w \<and>
   contacts (snd (api_send (\<lambda>request. Reject err) m path body w :: 'a outcome \<times> world)) =
     contacts w \<and>
   (map_option resp_status (err_response err) = Some 401 \<longrightarrow>
      localStorage (snd (api_send (\<lambda>request. Reject err) m path body w :: 'a outcome \<times> world)) =
        (localStorage w)(''token'' := None)) \<and>
   (map_option resp_status (err_response err) \<noteq> Some 401 \<longrightarrow>
      localStorage (snd (api_send (\<lambda>request. Reject err) m path body w :: 'a outcome \<times> world)) =
        localStorage w)"
  by (auto simp add: responseErrorInterceptor_def api_send_def Let_def)

theorem interceptor_clears_credential_on_401_witness:
  "map_option resp_status (err_response unauthorized) = Some 401 \<and>
   localStorage (snd (responseErrorInterceptor unauthorized
       (initialWorld\<lparr>localStorage := (\<lambda>key. None)(''token'' \<mapsto> ''abc'')\<rparr>) :: unit outcome \<times> world))
     ''token'' = None \<and>
   map_option resp_status (err_response conflict) \<noteq> Some 401 \<and>
   localStorage (snd (responseErrorInterceptor conflict
       (initialWorld\<lparr>localStorage := (\<lambda>key. None)(''token'' \<mapsto> ''abc'')\<rparr>) :: unit outcome \<times> world))
     ''token'' = Some ''abc'' \<and>
   localStorage (snd (api_send (\<lambda>request. Reject unauthorized) GET ''/contacts'' []
       (initialWorld\<lparr>localStorage := (\<lambda>key. None)(''token'' \<mapsto> ''abc'')\<rparr>) :: unit outcome \<times> world))
     ''token'' = None \<and>
   localStorage (snd (api_send (\<lambda>request. Reject conflict) GET ''/contacts'' []
       (initialWorld\<lparr>localStorage := (\<lambda>key. None)(''token'' \<mapsto> ''abc'')\<rparr>) :: unit outcome \<times> world))
     ''token'' = Some ''abc''"
proof -
  have h1: "map_option resp_status (err_response unauthorized) = Some 401"
    by (simp add: unauthorized_def)
  have h2: "map_option resp_status (err_response conflict) \<noteq> Some 401"
    by (simp add: conflict_def)
  from interceptor_clears_credential_on_401
         [of unauthorized "initialWorld\<lparr>localStorage := (\<lambda>key. None)(''token'' \<mapsto> ''abc'')\<rparr>"
             GET "''/contacts''" "[]", where ?'a = unit]
       interceptor_clears_credential_on_401
         [of conflict "initialWorld\<lparr>localStorage := (\<lambda>key. None)(''token'' \<mapsto> ''abc'')\<rparr>"
             GET "''/contacts''" "[]", where ?'a = unit]
       h1 h2
  show ?thesis by simp
qed

section \<open>A rejected registration\<close>

text \<open>
  C8. When the remote service answers a registration with status 400 or 409, the thunk
  settles as rejected with the status code, a colon and the error text; afterwards the
  session has no user, no token and is not logged in, its status is failed, its error is
  that same prefixed message, and \<open>localStorage\<close> is what it was before, so no token was
  written.
\<close>

theorem register_conflict_stays_anonymous:
  assumes "err_response err = Some r" and "resp_status r = 400 \<or> resp_status r = 409"
  shows "fst (register (\<lambda>request. Reject err) credentials w) =
           Rejected ((if resp_status r = 409 then ''409'' else ''400'') @ '':'' @
                     errorText err ''Registration failed'') \<and>
         user (auth (snd (register (\<lambda>request. Reject err) credentials w))) = None \<and>
         token (auth (snd (register (\<lambda>request. Reject err) credentials w))) = None \<and>
         isLoggedIn (auth (snd (register (\<lambda>request. Reject err) credentials w))) = False \<and>
         authStatus (auth (snd (register (\<lambda>request. Reject err) credentials w))) = Failed \<and>
         authError (auth (snd (register (\<lambda>request. Reject err) credentials w))) =
           Some ((if resp_status r = 409 then ''409'' else ''400'') @ '':'' @
                 errorText err ''Registration failed'') \<and>
         localStorage (snd (register (\<lambda>request. Reject err) credentials w)) = localStorage w"
proof -
  have n400: "numberToString 400 = ''400''" by code_simp
  have n409: "numberToString 409 = ''409''" by code_simp
  from assms show ?thesis
    by (auto simp add: register_def Let_def api_send_def responseErrorInterceptor_def orElse_def
        n400 n409)
qed

theorem register_conflict_stays_anonymous_witness:
  "err_response conflict = Some \<lparr>resp_status = 409, resp_message = Some ''User already exists''\<rparr> \<and>
   (resp_status \<lparr>resp_status = 409, resp_message = Some ''User already exists''\<rparr> = 400 \<or>
    resp_status \<lparr>resp_status = 409, resp_message = Some ''User already exists''\<rparr> = 409) \<and>
   authError (auth (snd (register (\<lambda>request. Reject conflict)
       [(''name'', ''Ali''), (''email'', ''ali@x.com''), (''password'', ''secret1'')] initialWorld))) =
     Some ''409:User already exists'' \<and>
   localStorage (snd (register (\<lambda>request. Reject conflict)
       [(''name'', ''Ali''), (''email'', ''ali@x.com''), (''password'', ''secret1'')] initialWorld)) =
     localStorage initialWorld"
proof -
  have h1: "err_response conflict =
      Some \<lparr>resp_status = 409, resp_message = Some ''User already exists''\<rparr>"
    by (simp add: conflict_def)
  have h2: "resp_status \<lparr>resp_status = 409, resp_message = Some ''User already exists''\<rparr> = 400 \<or>
    resp_status \<lparr>resp_status = 409, resp_message = Some ''User already exists''\<rparr> = 409"
    by simp
  have msg: "errorText conflict ''Registration failed'' = ''User already exists''"
    by (simp add: errorText_def conflict_def orElse_def)
  from register_conflict_stays_anonymous [OF h1 h2, of
      "[(''name'', ''Ali''), (''email'', ''ali@x.com''), (''password'', ''secret1'')]" initialWorld]
    h1 h2 msg
  show ?thesis by simp
qed

section \<open>Idempotence of the filtered view\<close>

text \<open>
  C9. Filtering an already filtered collection again with the same search text and the
  same filter value gives the filtered collection back.
\<close>

theorem filteredView_idempotent:
  "selectFilteredContacts (selectFilteredContacts its search flt) search flt =
   selectFilteredContacts its search flt"
  by (auto simp add: selectFilteredContacts_def Let_def intro!: filter_cong)

theorem filteredView_idempotent_witness:
  "selectFilteredContacts (selectFilteredContacts [bo, ann] ''ann'' ''hasPhone'') ''ann'' ''hasPhone'' =
   selectFilteredContacts [bo, ann] ''ann'' ''hasPhone''"
  using filteredView_idempotent [of "[bo, ann]" "''ann''" "''hasPhone''"]
  by simp

section \<open>A failed refresh\<close>

text \<open>
  C10. Whenever the refresh thunk settles as rejected, with whatever value, the session's
  error is the text \<open>Session expired\<close>, and the session has no user, no token and is not
  logged in. That covers the two ways it fails: with no token in \<open>localStorage\<close> the
  thunk rejects with \<open>Token not found\<close>, and with a token and a failed verification it
  rejects with the error text of the failure. The reducer's case for a rejected refresh
  sets the error to \<open>Session expired\<close> for every payload.
\<close>

theorem refresh_failure_session_expired:
  "(\<forall>p. fst (refreshUser remote w) = Rejected p \<longrightarrow>
      authError (auth (snd (refreshUser remote w))) = Some ''Session expired'' \<and>
      user (auth (snd (refreshUser remote w))) = None \<and>
      token (auth (snd (refreshUser remote w))) = None \<and>
      isLoggedIn (auth (snd (refreshUser remote w))) = False) \<and>
   (\<not> truthy (localStorage w ''token'') \<longrightarrow>
      fst (refreshUser remote w) = Rejected ''Token not found'') \<and>
   (truthy (localStorage w ''token'') \<longrightarrow>
      fst (refreshUser (\<lambda>request. Reject err) w) = Rejected (errorText err ''Session expired'')) \<and>
   authError (authReducer s (RefreshRejected payload)) = Some ''Session expired''"
  by (auto simp add: refreshUser_def Let_def api_send_def responseErrorInterceptor_def
      split: outcome.splits prod.splits if_splits)

theorem refresh_failure_session_expired_witness:
  "\<not> truthy (localStorage initialWorld ''token'') \<and>
   fst (refreshUser (\<lambda>request. Reject unauthorized) initialWorld) = Rejected ''Token not found'' \<and>
   authError (auth (snd (refreshUser (\<lambda>request. Reject unauthorized) initialWorld))) =
     Some ''Session expired'' \<and>
   truthy (localStorage (initialWorld\<lparr>localStorage := (\<lambda>key. None)(''token'' \<mapsto> ''abc'')\<rparr>)
             ''token'') \<and>
   fst (refreshUser (\<lambda>request. Reject unauthorized)
          (initialWorld\<lparr>localStorage := (\<lambda>key. None)(''token'' \<mapsto> ''abc'')\<rparr>)) =
     Rejected ''Please authenticate'' \<and>
   authError (auth (snd (refreshUser (\<lambda>request. Reject unauthorized)
          (initialWorld\<lparr>localStorage := (\<lambda>key. None)(''token'' \<mapsto> ''abc'')\<rparr>)))) =
     Some ''Session expired''"
proof -
  have h1: "\<not> truthy (localStorage initialWorld ''token'')"
    by (simp add: initialWorld_def truthy_def)
  have h2: "truthy (localStorage
      (initialWorld\<lparr>localStorage := (\<lambda>key. None)(''token'' \<mapsto> ''abc'')\<rparr>) ''token'')"
    by (simp add: truthy_def)
  have msg: "errorText unauthorized ''Session expired'' = ''Please authenticate''"
    by (simp add: errorText_def unauthorized_def orElse_def)
  from refresh_failure_session_expired
         [of "\<lambda>request. Reject unauthorized" initialWorld unauthorized]
       refresh_failure_session_expired
         [of "\<lambda>request. Reject unauthorized"
             "initialWorld\<lparr>localStorage := (\<lambda>key. None)(''token'' \<mapsto> ''abc'')\<rparr>" unauthorized]
       h1 h2 msg
  show ?thesis by simp
qed

end
